theory Spec2Isabelle
  imports Main "HOL-Library.Word"
begin

unbundle bit_operations_syntax

section \<open>Values of the Python program\<close>

text \<open>
  The handlers of \<^verbatim>\<open>app.py\<close> read JSON bodies whose fields can hold any JSON value, so
  the values a handler sees are modelled as the Python objects \<^verbatim>\<open>json.loads\<close> builds:
  \<^verbatim>\<open>None\<close>, \<^verbatim>\<open>bool\<close>, \<^verbatim>\<open>int\<close>, \<^verbatim>\<open>float\<close> (its IEEE-754 bits), \<^verbatim>\<open>str\<close>,
  \<^verbatim>\<open>list\<close> and \<^verbatim>\<open>dict\<close> (its items; the keys of a parsed object are distinct).
\<close>

datatype json =
    JNull
  | JBool bool
  | JInt int
  | JFloat "64 word"
  | JStr string
  | JArr "json list"
  | JObj "(string \<times> json) list"

text \<open>Python's truth value of an object, as \<^verbatim>\<open>not x\<close> tests it.\<close>

fun truthy :: "json \<Rightarrow> bool" where
  "truthy JNull = False"
| "truthy (JBool b) = b"
| "truthy (JInt i) = (i \<noteq> 0)"
| "truthy (JFloat w) = (w AND mask 63 \<noteq> 0)"
| "truthy (JStr s) = (s \<noteq> [])"
| "truthy (JArr xs) = (xs \<noteq> [])"
| "truthy (JObj kvs) = (kvs \<noteq> [])"

fun type_name :: "json \<Rightarrow> string" where
  "type_name JNull = ''NoneType''"
| "type_name (JBool b) = ''bool''"
| "type_name (JInt i) = ''int''"
| "type_name (JFloat w) = ''float''"
| "type_name (JStr s) = ''str''"
| "type_name (JArr xs) = ''list''"
| "type_name (JObj kvs) = ''dict''"

text \<open>
  Exceptions: the class decides which \<^verbatim>\<open>except\<close> clause catches it, the string is
  \<^verbatim>\<open>str(e)\<close>. \<open>RequestException\<close> stands for \<^verbatim>\<open>requests.exceptions.RequestException\<close>
  and its subclasses, \<open>APIError\<close> for the error class \<^verbatim>\<open>together.error.APIError\<close> of
  the completion library, \<open>HTTPException\<close> for what Flask raises when a body is not JSON.
\<close>

datatype exn_class =
    RequestException
  | APIError
  | HTTPException
  | AttributeError
  | TypeError
  | ValueError
  | IndexError
  | OtherException

datatype exn = Exn exn_class string

fun exn_class_of :: "exn \<Rightarrow> exn_class" where
  "exn_class_of (Exn c m) = c"

fun str :: "exn \<Rightarrow> string" where
  "str (Exn c m) = m"

text \<open>What a view function hands back: \<^verbatim>\<open>jsonify(...)\<close> with a status, or an HTML response.\<close>

datatype response =
    Json nat json
  | Html nat string

text \<open>A word between single quotes, as Python's messages write a name.\<close>

definition quoted :: "string \<Rightarrow> string" where
  "quoted s = [CHR 0x27] @ s @ [CHR 0x27]"

text \<open>\<^verbatim>\<open>obj.get(name)\<close>: only a dict has the method; a missing key gives \<^verbatim>\<open>None\<close>.\<close>

fun get_field :: "json \<Rightarrow> string \<Rightarrow> exn + json" where
  "get_field (JObj kvs) name = Inr (case map_of kvs name of None \<Rightarrow> JNull | Some v \<Rightarrow> v)"
| "get_field j name =
     Inl (Exn AttributeError (quoted (type_name j) @ '' object has no attribute '' @ quoted ''get''))"

section \<open>The context store\<close>

text \<open>
  \<^verbatim>\<open>extracted_texts = {}\<close>: a dict from API key to extracted text. Its keys are all
  strings (the only write is line 111), so a lookup with a hashable object that is not a
  string finds nothing, and a lookup with a list or a dict raises \<^verbatim>\<open>TypeError\<close>.
\<close>

fun dict_get :: "(string \<rightharpoonup> string) \<Rightarrow> json \<Rightarrow> string \<Rightarrow> exn + string" where
  "dict_get d (JStr k) dflt = Inr (case d k of None \<Rightarrow> dflt | Some v \<Rightarrow> v)"
| "dict_get d (JArr xs) dflt = Inl (Exn TypeError (''unhashable type: '' @ quoted ''list''))"
| "dict_get d (JObj kvs) dflt = Inl (Exn TypeError (''unhashable type: '' @ quoted ''dict''))"
| "dict_get d j dflt = Inr dflt"

text \<open>
  The lookup of line 248:
  \<^verbatim>\<open>extracted_texts.get(api_key, "No context available for this API key.")\<close>.
\<close>

definition get_context :: "(string \<rightharpoonup> string) \<Rightarrow> json \<Rightarrow> exn + string" where
  "get_context texts api_key = dict_get texts api_key ''No context available for this API key.''"

section \<open>The chat gateway\<close>

record message =
  role :: string
  content :: json

record completion_request =
  model :: string
  messages :: "message list"
  max_tokens :: nat
  temperature :: "64 word"
  top_p :: "64 word"
  top_k :: nat
  repetition_penalty :: nat
  stop :: "string list"

text \<open>
  The remote completion capability \<^verbatim>\<open>client.chat.completions.create\<close> is outside the
  program: it is a parameter that maps the request to an exception or to the contents of
  the candidates \<^verbatim>\<open>response.choices\<close>. The floats \<^verbatim>\<open>0.7\<close> are written as their bits.
\<close>

type_synonym completions_create = "completion_request \<Rightarrow> exn + string list"

definition chat_messages :: "string \<Rightarrow> json \<Rightarrow> message list" where
  "chat_messages context user_input =
     [\<lparr>role = ''system'',
       content = JStr (''You are a chatbot trained on the following website content: '' @ context)\<rparr>,
      \<lparr>role = ''user'', content = user_input\<rparr>]"

definition chat_request :: "message list \<Rightarrow> completion_request" where
  "chat_request msgs =
     \<lparr>model = ''meta-llama/Meta-Llama-3.1-8B-Instruct-Turbo'',
      messages = msgs,
      max_tokens = 512,
      temperature = 0x3FE6666666666666,
      top_p = 0x3FE6666666666666,
      top_k = 50,
      repetition_penalty = 1,
      stop = [''<|eot_id|>'', ''<|eom_id|>'']\<rparr>"

text \<open>
  The body of the \<^verbatim>\<open>try\<close> block of \<^verbatim>\<open>chat\<close> (lines 242-270): the exception it raises
  or the response it returns, with the completion calls it made.
\<close>

definition chat_try ::
  "completions_create \<Rightarrow> (string \<rightharpoonup> string) \<Rightarrow> exn + json \<Rightarrow>
     (exn + response) \<times> completion_request list" where
  "chat_try create texts request_json =
     (case request_json of
        Inl e \<Rightarrow> (Inl e, [])
      | Inr body \<Rightarrow>
          (case get_field body ''input'' of
             Inl e \<Rightarrow> (Inl e, [])
           | Inr user_input \<Rightarrow>
               (case get_field body ''api_key'' of
                  Inl e \<Rightarrow> (Inl e, [])
                | Inr api_key \<Rightarrow>
                    if \<not> truthy user_input \<or> \<not> truthy api_key
                    then (Inr (Json 400 (JObj [(''error'', JStr ''Input and API key are required'')])), [])
                    else
                      (case get_context texts api_key of
                         Inl e \<Rightarrow> (Inl e, [])
                       | Inr context \<Rightarrow>
                           let rq = chat_request (chat_messages context user_input) in
                           (case create rq of
                              Inl e \<Rightarrow> (Inl e, [rq])
                            | Inr choices \<Rightarrow>
                                (case choices of
                                   [] \<Rightarrow> (Inl (Exn IndexError ''list index out of range''), [rq])
                                 | c # cs \<Rightarrow> (Inr (Json 200 (JObj [(''response'', JStr c)])), [rq])))))))"

text \<open>
  The expression \<^verbatim>\<open>Together.APIError\<close> of the second \<^verbatim>\<open>except\<close> clause (line 274).
  \<^verbatim>\<open>Together\<close> is the client class that line 6 imports from the \<^verbatim>\<open>together\<close> library; the
  class has no attribute \<^verbatim>\<open>APIError\<close> (the library's exception classes are in its
  module \<^verbatim>\<open>together.error\<close>), so evaluating the expression raises \<^verbatim>\<open>AttributeError\<close>.
\<close>

definition Together_APIError :: "exn + exn_class" where
  "Together_APIError =
     Inl (Exn AttributeError
       (''type object '' @ quoted ''Together'' @ '' has no attribute '' @ quoted ''APIError''))"

text \<open>
  The three \<^verbatim>\<open>except\<close> clauses of \<^verbatim>\<open>chat\<close> (lines 271-279), in their order. Python
  evaluates the expression of a clause when an exception reaches it; an exception raised
  by that evaluation is not handled by the later clauses of the same \<^verbatim>\<open>try\<close>: it
  leaves the view function.
\<close>

definition chat_except :: "exn \<Rightarrow> exn + response" where
  "chat_except e =
     (if exn_class_of e = RequestException
      then Inr (Json 503 (JObj [(''error'', JStr (''Network error: '' @ str e))]))
      else
        (case Together_APIError of
           Inl raised \<Rightarrow> Inl raised
         | Inr api_error \<Rightarrow>
             if exn_class_of e = api_error
             then Inr (Json 500 (JObj [(''error'', JStr (''Together API error: '' @ str e))]))
             else Inr (Json 500 (JObj [(''error'', JStr (''Unexpected error: '' @ str e))]))))"

text \<open>
  \<^verbatim>\<open>chat\<close> (lines 240-279), without its rate-limit decorator: the response, or the
  exception that leaves the view function, and the completion calls made.
\<close>

definition chat ::
  "completions_create \<Rightarrow> (string \<rightharpoonup> string) \<Rightarrow> exn + json \<Rightarrow>
     (exn + response) \<times> completion_request list" where
  "chat create texts request_json =
     (case chat_try create texts request_json of
        (Inl e, calls) \<Rightarrow> (chat_except e, calls)
      | (Inr r, calls) \<Rightarrow> (Inr r, calls))"

section \<open>Keys\<close>

text \<open>
  \<^verbatim>\<open>uuid.uuid4()\<close> draws a 128-bit value outside the program; its \<^verbatim>\<open>hex\<close> attribute is
  Python's \<^verbatim>\<open>'%032x'\<close> of that value: 32 lowercase hexadecimal digits, the most
  significant first.
\<close>

definition hexdigit :: "nat \<Rightarrow> char" where
  "hexdigit n = ''0123456789abcdef'' ! n"

definition hex :: "128 word \<Rightarrow> string" where
  "hex u = map (\<lambda>i. hexdigit (unat (drop_bit (4 * i) u AND 15))) (rev [0..<32])"

text \<open>The key of line 110: \<^verbatim>\<open>f"user_{uuid.uuid4().hex}"\<close>.\<close>

definition new_api_key :: "128 word \<Rightarrow> string" where
  "new_api_key u = ''user_'' @ hex u"

section \<open>The content extractor\<close>

record http_response =
  status_code :: nat
  resp_text :: string

text \<open>\<^verbatim>\<open>sep.join(xs)\<close>.\<close>

fun join :: "string \<Rightarrow> string list \<Rightarrow> string" where
  "join sep [] = []"
| "join sep [x] = x"
| "join sep (x # y # ys) = x @ sep @ join sep (y # ys)"

text \<open>
  \<^verbatim>\<open>extract_text_from_url\<close> (lines 55-58). \<^verbatim>\<open>requests.get\<close> is a parameter: it raises
  or returns a response of any status. The HTML parser is a parameter too: \<open>find_all_p\<close>
  gives the texts of the \<^verbatim>\<open>p\<close> elements of a document, in document order.
\<close>

definition extract_text_from_url ::
  "(json \<Rightarrow> exn + http_response) \<Rightarrow> (string \<Rightarrow> string list) \<Rightarrow> json \<Rightarrow> exn + string" where
  "extract_text_from_url requests_get find_all_p url =
     (case requests_get url of
        Inl e \<Rightarrow> Inl e
      | Inr response \<Rightarrow> Inr (join '' '' (find_all_p (resp_text response))))"

section \<open>The application state and what surrounds it\<close>

text \<open>
  A row of the \<^verbatim>\<open>User\<close> table; \<open>uid\<close> is the primary key \<^verbatim>\<open>id\<close>, \<open>email\<close> the text
  of the \<^verbatim>\<open>String(120)\<close> column (not null), \<open>api_keys\<close> the nullable text column holding
  a JSON list.
\<close>

record user =
  uid :: nat
  email :: string
  password :: string
  api_keys :: "string option"

record app_state =
  extracted_texts :: "string \<rightharpoonup> string"
  users :: "user list"

text \<open>
  What one request finds outside the program: the libraries it calls and the outcome of
  each outbound call. \<open>db_commit\<close> is the exception \<^verbatim>\<open>db.session.commit()\<close> raises, if
  any; a failed commit leaves the table as it was. \<open>bind_text\<close> is the database layer's
  conversion of a Python value bound to the \<^verbatim>\<open>email\<close> column, in a query or an insert:
  the text it is stored and compared as (a \<^verbatim>\<open>str\<close> as itself; what becomes of an
  \<^verbatim>\<open>int\<close> depends on the database of \<^verbatim>\<open>DATABASE_URL\<close>), \<open>None\<close> for SQL NULL, or the
  exception raised for a value that cannot be bound.
\<close>

record environment =
  requests_get :: "json \<Rightarrow> exn + http_response"
  find_all_p :: "string \<Rightarrow> string list"
  uuid4 :: "128 word"
  json_loads :: "string \<Rightarrow> exn + json"
  json_dumps :: "json \<Rightarrow> string"
  db_commit :: "exn option"
  bind_text :: "json \<Rightarrow> exn + string option"
  create :: completions_create
  generate_password_hash :: "json \<Rightarrow> exn + string"
  check_password_hash :: "string \<Rightarrow> json \<Rightarrow> exn + bool"
  index_html :: string

text \<open>The outbound calls a handler makes, in order.\<close>

datatype call =
    Fetch json
  | Complete completion_request

text \<open>
  \<^verbatim>\<open>User.query.get(id)\<close> and \<^verbatim>\<open>User.query.filter_by(email=email).first()\<close>, the latter
  on the bound value: a comparison with NULL selects no row.
\<close>

definition query_get :: "user list \<Rightarrow> nat \<Rightarrow> user option" where
  "query_get us i = find (\<lambda>u. uid u = i) us"

definition query_by_email :: "user list \<Rightarrow> string option \<Rightarrow> user option" where
  "query_by_email us bound =
     (case bound of None \<Rightarrow> None | Some e \<Rightarrow> find (\<lambda>u. email u = e) us)"

text \<open>The next value of the autoincrement primary key.\<close>

definition next_id :: "user list \<Rightarrow> nat" where
  "next_id us = Suc (fold max (map uid us) 0)"

definition no_attribute :: "string \<Rightarrow> string \<Rightarrow> exn" where
  "no_attribute ty attr =
     Exn AttributeError (quoted ty @ '' object has no attribute '' @ quoted attr)"

text \<open>\<^verbatim>\<open>json.loads(user.api_keys)\<close> on the column of a row.\<close>

definition loads_api_keys :: "environment \<Rightarrow> user \<Rightarrow> exn + json" where
  "loads_api_keys env u =
     (case api_keys u of
        None \<Rightarrow> Inl (Exn TypeError ''the JSON object must be str, bytes or bytearray, not NoneType'')
      | Some t \<Rightarrow> json_loads env t)"

section \<open>The integration snippet and the widget\<close>

definition integration_script_head :: string where
  \<open>integration_script_head = concat
    [''\<newline>'',
     ''<script>\<newline>'',
     ''(function() {\<newline>'',
     ''    var script = document.createElement(\'script\');\<newline>'',
     ''    script.src = \'https://cdn.jsdelivr.net/npm/axios/dist/axios.min.js\';\<newline>'',
     ''    script.onload = function() {\<newline>'',
     ''        var chatbotScript = document.createElement(\'script\');\<newline>'',
     ''        chatbotScript.textContent = `\<newline>'',
     ''            axios.get(\'https://chatcat-s1ny.onrender.com/chatbot-design?api_key='']\<close>

definition integration_script_tail :: string where
  \<open>integration_script_tail = concat
    [''\')\<newline>'',
     ''                .then(function(response) {\<newline>'',
     ''                    var div = document.createElement(\'div\');\<newline>'',
     ''                    div.innerHTML = response.data;\<newline>'',
     ''                    document.body.appendChild(div);\<newline>'',
     ''                })\<newline>'',
     ''                .catch(function(error) {\<newline>'',
     ''                    console.error(\'Error loading chatbot:\', error);\<newline>'',
     ''                });\<newline>'',
     ''        `;\<newline>'',
     ''        document.body.appendChild(chatbotScript);\<newline>'',
     ''    };\<newline>'',
     ''    document.body.appendChild(script);\<newline>'',
     ''})();\<newline>'',
     ''</script>\<newline>'']\<close>

definition design_head :: string where
  \<open>design_head = concat
    [''\<newline>'',
     ''    <!-- AI Chatbot -->\<newline>'',
     ''    <div id="ai-chatbot" style="position: fixed; bottom: 20px; right: 20px; width: 300px; height: 400px; background-color: #f1f1f1; border-radius: 10px; box-shadow: 0 0 10px rgba(0,0,0,0.1); display: flex; flex-direction: column; overflow: hidden;">\<newline>'',
     ''        <div style="background-color: #007bff; color: white; padding: 10px; font-weight: bold;">AI Chatbot</div>\<newline>'',
     ''        <div id="chat-messages" style="flex-grow: 1; overflow-y: auto; padding: 10px;"></div>\<newline>'',
     ''        <div style="padding: 10px; border-top: 1px solid #ddd;">\<newline>'',
     ''            <input type="text" id="user-input" placeholder="Type your message..." style="width: 80%; padding: 5px;">\<newline>'',
     ''            <button onclick="sendMessage()" style="width: 18%; padding: 5px;">Send</button>\<newline>'',
     ''        </div>\<newline>'',
     ''    </div>\<newline>'',
     ''\<newline>'',
     ''    <script>\<newline>'',
     ''    console.log(\'Chatbot script loaded\');\<newline>'',
     ''    const chatWithAI = async (input) => {\<newline>'',
     ''        console.log(\'Sending message to AI:\', input);\<newline>'',
     ''        try {\<newline>'',
     ''            const response = await axios.post(\'https://chatcat-s1ny.onrender.com/chat\', {\<newline>'',
     ''                input: input,\<newline>'',
     ''                api_key: '' @ [CHR 0x27]]\<close>

definition design_tail :: string where
  \<open>design_tail = concat
    [''\'\<newline>'',
     ''            });\<newline>'',
     ''            console.log(\'Received response from AI:\', response.data);\<newline>'',
     ''            return response.data.response;\<newline>'',
     ''        } catch (error) {\<newline>'',
     ''            console.error(\'Error in chatWithAI:\', error);\<newline>'',
     ''            if (error.response) {\<newline>'',
     ''                console.error(\'Error response:\', error.response.data);\<newline>'',
     ''                return `Server Error: ${error.response.data.error || \'Unknown server error\'}`;\<newline>'',
     ''            } else if (error.request) {\<newline>'',
     ''                console.error(\'No response received\');\<newline>'',
     ''                return \'Network Error: No response received from the server. Please check your internet connection.\';\<newline>'',
     ''            } else {\<newline>'',
     ''                console.error(\'Error message:\', error.message);\<newline>'',
     ''                return `Error: ${error.message}`;\<newline>'',
     ''            }\<newline>'',
     ''        }\<newline>'',
     ''    };\<newline>'',
     ''\<newline>'',
     ''    function addMessage(sender, message) {\<newline>'',
     ''        console.log(`Adding message from ${sender}:`, message);\<newline>'',
     ''        const chatMessages = document.getElementById(\'chat-messages\');\<newline>'',
     ''        const messageElement = document.createElement(\'div\');\<newline>'',
     ''        messageElement.innerHTML = `<strong>${sender}:</strong> ${message}`;\<newline>'',
     ''        chatMessages.appendChild(messageElement);\<newline>'',
     ''        chatMessages.scrollTop = chatMessages.scrollHeight;\<newline>'',
     ''    }\<newline>'',
     ''\<newline>'',
     ''    async function sendMessage() {\<newline>'',
     ''        const userInput = document.getElementById(\'user-input\');\<newline>'',
     ''        const message = userInput.value.trim();\<newline>'',
     ''        if (message) {\<newline>'',
     ''            console.log(\'User sending message:\', message);\<newline>'',
     ''            addMessage(\'You\', message);\<newline>'',
     ''            userInput.value = '' @ [CHR 0x27] @ ''\';\<newline>'',
     ''            const response = await chatWithAI(message);\<newline>'',
     ''            console.log(\'Received AI response:\', response);\<newline>'',
     ''            addMessage(\'AI\', response);\<newline>'',
     ''        }\<newline>'',
     ''    }\<newline>'',
     ''\<newline>'',
     ''    // Initialize chat\<newline>'',
     ''    console.log(\'Initializing chat\');\<newline>'',
     ''    addMessage(\'AI\', \'Hello! How can I assist you today?\');\<newline>'',
     ''\<newline>'',
     ''    // Add event listener for Enter key\<newline>'',
     ''    document.getElementById(\'user-input\').addEventListener(\'keypress\', function(event) {\<newline>'',
     ''        if (event.key === \'Enter\') {\<newline>'',
     ''            sendMessage();\<newline>'',
     ''        }\<newline>'',
     ''    });\<newline>'',
     ''    </script>\<newline>'',
     ''    '']\<close>

definition generate_integration_script :: "string \<Rightarrow> string" where
  "generate_integration_script api_key = integration_script_head @ api_key @ integration_script_tail"

text \<open>\<^verbatim>\<open>chatbot_design\<close> (lines 158-236); \<open>args\<close> is the query string.\<close>

definition chatbot_design :: "(string \<times> string) list \<Rightarrow> response" where
  "chatbot_design args =
     (case map_of args ''api_key'' of
        None \<Rightarrow> Json 400 (JObj [(''error'', JStr ''API key is required'')])
      | Some api_key \<Rightarrow>
          if api_key = [] then Json 400 (JObj [(''error'', JStr ''API key is required'')])
          else Html 200 (design_head @ api_key @ design_tail))"

section \<open>The handlers that change the state\<close>

text \<open>
  A handler gives the response it returns, or the exception that escapes it (Flask turns
  that one into an error page), the state it leaves and the outbound calls it made. The
  session is the signed cookie of the request: \<^verbatim>\<open>session['user_id']\<close>, if set.
\<close>

text \<open>The body of the \<^verbatim>\<open>try\<close> block of \<^verbatim>\<open>process_url\<close> (lines 109-127).\<close>

definition process_url_try ::
  "environment \<Rightarrow> app_state \<Rightarrow> nat \<Rightarrow> json \<Rightarrow> (exn + response) \<times> app_state" where
  "process_url_try env st user_id url =
     (case extract_text_from_url (requests_get env) (find_all_p env) url of
        Inl e \<Rightarrow> (Inl e, st)
      | Inr extracted_text \<Rightarrow>
          let api_key = new_api_key (uuid4 env);
              st1 = st\<lparr>extracted_texts := (extracted_texts st)(api_key \<mapsto> extracted_text)\<rparr>
          in
          (case query_get (users st1) user_id of
             None \<Rightarrow> (Inl (no_attribute ''NoneType'' ''api_keys''), st1)
           | Some u \<Rightarrow>
               (case loads_api_keys env u of
                  Inl e \<Rightarrow> (Inl e, st1)
                | Inr (JArr ks) \<Rightarrow>
                    (case db_commit env of
                       Some e \<Rightarrow> (Inl e, st1)
                     | None \<Rightarrow>
                         (Inr (Json 200 (JObj
                            [(''message'', JStr ''Processing complete''),
                             (''api_key'', JStr api_key),
                             (''integration_code'', JStr (generate_integration_script api_key))])),
                          st1\<lparr>users :=
                            map (\<lambda>r. if uid r = user_id
                                      then r\<lparr>api_keys := Some (json_dumps env (JArr (ks @ [JStr api_key])))\<rparr>
                                      else r)
                              (users st1)\<rparr>))
                | Inr v \<Rightarrow> (Inl (no_attribute (type_name v) ''append''), st1))))"

text \<open>\<^verbatim>\<open>process_url\<close> (lines 100-130), without its rate-limit decorator.\<close>

definition process_url ::
  "environment \<Rightarrow> app_state \<Rightarrow> nat option \<Rightarrow> exn + json \<Rightarrow>
     (exn + response) \<times> app_state \<times> call list" where
  "process_url env st session request_json =
     (case session of
        None \<Rightarrow> (Inr (Json 401 (JObj [(''error'', JStr ''User not logged in'')])), st, [])
      | Some user_id \<Rightarrow>
          (case request_json of
             Inl e \<Rightarrow> (Inl e, st, [])
           | Inr body \<Rightarrow>
               (case get_field body ''url'' of
                  Inl e \<Rightarrow> (Inl e, st, [])
                | Inr url \<Rightarrow>
                    if \<not> truthy url
                    then (Inr (Json 400 (JObj [(''error'', JStr ''No URL provided'')])), st, [])
                    else
                      (case process_url_try env st user_id url of
                         (Inl e, st') \<Rightarrow>
                           (Inr (Json 500 (JObj [(''error'', JStr (str e))])), st', [Fetch url])
                       | (Inr r, st') \<Rightarrow> (Inr r, st', [Fetch url])))))"

text \<open>
  \<^verbatim>\<open>register\<close> (lines 65-78). The insert of a row whose email is NULL violates the
  column's \<^verbatim>\<open>nullable=False\<close> and fails at the commit.
\<close>

definition register :: "environment \<Rightarrow> app_state \<Rightarrow> exn + json \<Rightarrow> (exn + response) \<times> app_state" where
  "register env st request_json =
     (case request_json of
        Inl e \<Rightarrow> (Inl e, st)
      | Inr data \<Rightarrow>
          (case get_field data ''email'' of
             Inl e \<Rightarrow> (Inl e, st)
           | Inr em \<Rightarrow>
               (case get_field data ''password'' of
                  Inl e \<Rightarrow> (Inl e, st)
                | Inr pw \<Rightarrow>
                    (case bind_text env em of
                       Inl e \<Rightarrow> (Inl e, st)
                     | Inr bound \<Rightarrow>
                         (case query_by_email (users st) bound of
                            Some u \<Rightarrow>
                              (Inr (Json 400 (JObj [(''error'', JStr ''Email already registered'')])), st)
                          | None \<Rightarrow>
                              (case generate_password_hash env pw of
                                 Inl e \<Rightarrow> (Inl e, st)
                               | Inr hashed_password \<Rightarrow>
                                   (case bound of
                                      None \<Rightarrow>
                                        (Inl (Exn OtherException ''NOT NULL constraint failed: user.email''), st)
                                    | Some email_text \<Rightarrow>
                                        (case db_commit env of
                                           Some e \<Rightarrow> (Inl e, st)
                                         | None \<Rightarrow>
                                             (Inr (Json 201 (JObj
                                                [(''message'', JStr ''User registered successfully'')])),
                                              st\<lparr>users := users st @
                                                [\<lparr>uid = next_id (users st), email = email_text,
                                                  password = hashed_password,
                                                  api_keys = Some ''[]''\<rparr>]\<rparr>)))))))))"

text \<open>\<^verbatim>\<open>login\<close> (lines 81-91): the response and the session it leaves.\<close>

definition login ::
  "environment \<Rightarrow> app_state \<Rightarrow> nat option \<Rightarrow> exn + json \<Rightarrow> (exn + response) \<times> nat option" where
  "login env st session request_json =
     (case request_json of
        Inl e \<Rightarrow> (Inl e, session)
      | Inr data \<Rightarrow>
          (case get_field data ''email'' of
             Inl e \<Rightarrow> (Inl e, session)
           | Inr em \<Rightarrow>
               (case get_field data ''password'' of
                  Inl e \<Rightarrow> (Inl e, session)
                | Inr pw \<Rightarrow>
                    (case bind_text env em of
                       Inl e \<Rightarrow> (Inl e, session)
                     | Inr bound \<Rightarrow>
                         (case query_by_email (users st) bound of
                            None \<Rightarrow>
                              (Inr (Json 401 (JObj [(''error'', JStr ''Invalid credentials'')])), session)
                          | Some u \<Rightarrow>
                              (case check_password_hash env (password u) pw of
                                 Inl e \<Rightarrow> (Inl e, session)
                               | Inr ok \<Rightarrow>
                                   if ok
                                   then (Inr (Json 200 (JObj [(''message'', JStr ''Logged in successfully'')])),
                                         Some (uid u))
                                   else (Inr (Json 401 (JObj [(''error'', JStr ''Invalid credentials'')])),
                                         session)))))))"

text \<open>\<^verbatim>\<open>logout\<close> (lines 94-96).\<close>

definition logout :: "nat option \<Rightarrow> response \<times> nat option" where
  "logout session = (Json 200 (JObj [(''message'', JStr ''Logged out successfully'')]), None)"

text \<open>\<^verbatim>\<open>get_user_api_keys\<close> (lines 282-288).\<close>

definition get_user_api_keys :: "environment \<Rightarrow> app_state \<Rightarrow> nat option \<Rightarrow> exn + response" where
  "get_user_api_keys env st session =
     (case session of
        None \<Rightarrow> Inr (Json 401 (JObj [(''error'', JStr ''User not logged in'')]))
      | Some user_id \<Rightarrow>
          (case query_get (users st) user_id of
             None \<Rightarrow> Inl (no_attribute ''NoneType'' ''api_keys'')
           | Some u \<Rightarrow>
               (case loads_api_keys env u of
                  Inl e \<Rightarrow> Inl e
                | Inr ks \<Rightarrow> Inr (Json 200 (JObj [(''api_keys'', ks)])))))"

text \<open>\<^verbatim>\<open>index\<close> (lines 61-62); the template is not part of the sources.\<close>

definition index :: "environment \<Rightarrow> response" where
  "index env = Html 200 (index_html env)"

section \<open>The routes\<close>

datatype request =
    Index
  | Register "exn + json"
  | Login "exn + json"
  | Logout
  | ProcessUrl "exn + json"
  | ChatbotDesign "(string \<times> string) list"
  | Chat "exn + json"
  | UserApiKeys

record outcome =
  result :: "exn + response"
  state :: app_state
  cookie :: "nat option"
  calls :: "call list"

text \<open>One request run by its view function, rate limits aside.\<close>

fun handle :: "environment \<Rightarrow> request \<Rightarrow> nat option \<Rightarrow> app_state \<Rightarrow> outcome" where
  "handle env Index session st =
     \<lparr>result = Inr (index env), state = st, cookie = session, calls = []\<rparr>"
| "handle env (Register rj) session st =
     (case register env st rj of
        (r, st') \<Rightarrow> \<lparr>result = r, state = st', cookie = session, calls = []\<rparr>)"
| "handle env (Login rj) session st =
     (case login env st session rj of
        (r, session') \<Rightarrow> \<lparr>result = r, state = st, cookie = session', calls = []\<rparr>)"
| "handle env Logout session st =
     (case logout session of
        (r, session') \<Rightarrow> \<lparr>result = Inr r, state = st, cookie = session', calls = []\<rparr>)"
| "handle env (ProcessUrl rj) session st =
     (case process_url env st session rj of
        (r, st', cs) \<Rightarrow> \<lparr>result = r, state = st', cookie = session, calls = cs\<rparr>)"
| "handle env (ChatbotDesign args) session st =
     \<lparr>result = Inr (chatbot_design args), state = st, cookie = session, calls = []\<rparr>"
| "handle env (Chat rj) session st =
     (case chat (create env) (extracted_texts st) rj of
        (r, cs) \<Rightarrow> \<lparr>result = r, state = st, cookie = session, calls = map Complete cs\<rparr>)"
| "handle env UserApiKeys session st =
     \<lparr>result = get_user_api_keys env st session, state = st, cookie = session, calls = []\<rparr>"


text \<open>The key a response of \<^verbatim>\<open>process_url\<close> hands to the caller, if it hands one.\<close>

fun returned_key :: "exn + response \<Rightarrow> string option" where
  "returned_key (Inr (Json code (JObj kvs))) =
     (case map_of kvs ''api_key'' of Some (JStr k) \<Rightarrow> Some k | _ \<Rightarrow> None)"
| "returned_key r = None"

section \<open>The rate limiter\<close>

text \<open>
  Modelled from the spec: the Rate Limiter of section 4.3, \<^verbatim>\<open>allow(clientIdentity,
  bucketName)\<close>. The program takes it from the \<^verbatim>\<open>flask_limiter\<close> library, which is not
  part of the sources; the sources only attach \<^verbatim>\<open>@limiter.limit("5 per minute")\<close> to
  \<^verbatim>\<open>process_url\<close> and \<^verbatim>\<open>chat\<close>, keyed by the remote address. The spec's words:
  the state is per process and windowed, reset on window rollover; on exceeding the limit
  the request fails with \<^verbatim>\<open>RateLimited\<close> (429) and the guarded side effect is not
  performed. The state here: per client and bucket, the start of the open window and the
  requests admitted in it; times are in seconds.
\<close>

type_synonym limiter = "string \<times> string \<Rightarrow> (nat \<times> nat) option"

text \<open>
  Modelled from the spec: \<^verbatim>\<open>allow\<close> with a limit and a window length. A request
  after the window's end opens a new window; within the window the first \<open>limit\<close> requests
  are admitted.
\<close>

definition allow :: "nat \<Rightarrow> nat \<Rightarrow> nat \<Rightarrow> limiter \<Rightarrow> string \<Rightarrow> string \<Rightarrow> bool \<times> limiter" where
  "allow limit window now lim clientIdentity bucketName =
     (case lim (clientIdentity, bucketName) of
        None \<Rightarrow> (True, lim((clientIdentity, bucketName) \<mapsto> (now, 1)))
      | Some (start, n) \<Rightarrow>
          if start + window \<le> now
          then (True, lim((clientIdentity, bucketName) \<mapsto> (now, 1)))
          else if n < limit
          then (True, lim((clientIdentity, bucketName) \<mapsto> (start, Suc n)))
          else (False, lim))"

text \<open>The routes that carry the 5 per minute limit, and the bucket of each.\<close>

fun limited_bucket :: "request \<Rightarrow> string option" where
  "limited_bucket (ProcessUrl rj) = Some ''process_url''"
| "limited_bucket (Chat rj) = Some ''chat''"
| "limited_bucket rq = None"

text \<open>
  Modelled from the spec: the \<^verbatim>\<open>RateLimited\<close> failure, 429 with a JSON body that has an
  \<^verbatim>\<open>error\<close> field; the view function does not run.
\<close>

definition rate_limited :: "nat option \<Rightarrow> app_state \<Rightarrow> outcome" where
  "rate_limited session st =
     \<lparr>result = Inr (Json 429 (JObj [(''error'', JStr ''RateLimited'')])),
      state = st, cookie = session, calls = []\<rparr>"

text \<open>
  Modelled from the spec: the default tiers of 200 per day and 50 per hour (line 30)
  guard every route that has no limit of its own; each tier counts per client and route
  in a bucket of its own, and a request has to pass both. \<open>endpoint\<close> names the view
  function of a route.
\<close>

fun endpoint :: "request \<Rightarrow> string" where
  "endpoint Index = ''index''"
| "endpoint (Register rj) = ''register''"
| "endpoint (Login rj) = ''login''"
| "endpoint Logout = ''logout''"
| "endpoint (ProcessUrl rj) = ''process_url''"
| "endpoint (ChatbotDesign args) = ''chatbot_design''"
| "endpoint (Chat rj) = ''chat''"
| "endpoint UserApiKeys = ''get_user_api_keys''"

text \<open>
  A request as the server meets it: the environment, the time, the remote address, the
  route with its payload, and the cookie.
\<close>

type_synonym arrival = "environment \<times> nat \<times> string \<times> request \<times> nat option"

fun serve :: "arrival \<Rightarrow> app_state \<times> limiter \<Rightarrow> outcome \<times> limiter" where
  "serve (env, now, remote_address, rq, session) (st, lim) =
     (case limited_bucket rq of
        Some b \<Rightarrow>
          (case allow 5 60 now lim remote_address b of
             (True, lim') \<Rightarrow> (handle env rq session st, lim')
           | (False, lim') \<Rightarrow> (rate_limited session st, lim'))
      | None \<Rightarrow>
          (case allow 200 86400 now lim remote_address (endpoint rq @ '' per day'') of
             (False, lim') \<Rightarrow> (rate_limited session st, lim')
           | (True, lim') \<Rightarrow>
               (case allow 50 3600 now lim' remote_address (endpoint rq @ '' per hour'') of
                  (False, lim'') \<Rightarrow> (rate_limited session st, lim'')
                | (True, lim'') \<Rightarrow> (handle env rq session st, lim''))))"

fun serve_all :: "arrival list \<Rightarrow> app_state \<times> limiter \<Rightarrow> outcome list" where
  "serve_all [] s = []"
| "serve_all (a # rest) s =
     (case serve a s of (out, lim') \<Rightarrow> out # serve_all rest (state out, lim'))"

text \<open>The state a list of arrivals leaves.\<close>

fun serve_run :: "arrival list \<Rightarrow> app_state \<times> limiter \<Rightarrow> app_state \<times> limiter" where
  "serve_run [] s = s"
| "serve_run (a # rest) s = (case serve a s of (out, lim') \<Rightarrow> serve_run rest (state out, lim'))"

text \<open>The arrivals of one client at one limited route, and the time of an arrival.\<close>

fun same_bucket :: "string \<Rightarrow> string \<Rightarrow> arrival \<Rightarrow> bool" where
  "same_bucket a b (env, now, remote_address, rq, session) =
     (remote_address = a \<and> limited_bucket rq = Some b)"

fun arrival_time :: "arrival \<Rightarrow> nat" where
  "arrival_time (env, now, remote_address, rq, session) = now"

text \<open>No window of the client and bucket is open at time \<open>t0\<close>.\<close>

definition window_closed :: "limiter \<Rightarrow> string \<Rightarrow> string \<Rightarrow> nat \<Rightarrow> bool" where
  "window_closed lim a b t0 =
     (case lim (a, b) of None \<Rightarrow> True | Some (start, n) \<Rightarrow> start + 60 \<le> t0)"

text \<open>
  The limiter's entry for a client and bucket after \<open>k\<close> arrivals of a window that opened
  at or after \<open>t0\<close>.
\<close>

definition window_inv :: "limiter \<Rightarrow> string \<Rightarrow> string \<Rightarrow> nat \<Rightarrow> nat \<Rightarrow> bool" where
  "window_inv lim a b t0 k =
     (if k = 0 then window_closed lim a b t0
      else \<exists>s. lim (a, b) = Some (s, min k 5) \<and> t0 \<le> s)"

section \<open>Sample surroundings\<close>

text \<open>Concrete libraries and outcomes, used to run the handlers on examples.\<close>

definition sample_get :: "json \<Rightarrow> exn + http_response" where
  "sample_get url =
     (if url = JStr ''http://example.com/a''
      then Inr \<lparr>status_code = 200, resp_text = ''<p>Hello.</p><p>World.</p>''\<rparr>
      else if url = JStr ''http://example.com/missing''
      then Inr \<lparr>status_code = 404, resp_text = ''<p>Not Found</p>''\<rparr>
      else Inl (Exn RequestException ''connection refused''))"

definition sample_find_all_p :: "string \<Rightarrow> string list" where
  "sample_find_all_p html =
     (if html = ''<p>Hello.</p><p>World.</p>'' then [''Hello.'', ''World.'']
      else if html = ''<p>Not Found</p>'' then [''Not Found'']
      else [])"

definition sample_loads :: "string \<Rightarrow> exn + json" where
  "sample_loads t =
     (if t = ''[]'' then Inr (JArr [])
      else Inl (Exn ValueError ''Expecting value: line 1 column 1 (char 0)''))"

definition sample_dumps :: "json \<Rightarrow> string" where
  \<open>sample_dumps j = (case j of JArr [JStr k] \<Rightarrow> ''["'' @ k @ ''"]'' | _ \<Rightarrow> ''[]'')\<close>

text \<open>A database that takes a string or NULL for a text column and refuses other values.\<close>

definition sample_bind_text :: "json \<Rightarrow> exn + string option" where
  "sample_bind_text v =
     (case v of
        JStr s \<Rightarrow> Inr (Some s)
      | JNull \<Rightarrow> Inr None
      | _ \<Rightarrow> Inl (Exn OtherException ''can not adapt the value''))"

definition sample_create :: completions_create where
  "sample_create rq = Inr [''Hi there'']"

definition failing_create :: "exn \<Rightarrow> completions_create" where
  "failing_create e rq = Inl e"

definition sample_env :: "128 word \<Rightarrow> environment" where
  "sample_env u =
     \<lparr>requests_get = sample_get,
      find_all_p = sample_find_all_p,
      uuid4 = u,
      json_loads = sample_loads,
      json_dumps = sample_dumps,
      db_commit = None,
      bind_text = sample_bind_text,
      create = sample_create,
      generate_password_hash = (\<lambda>pw. Inr ''hash''),
      check_password_hash = (\<lambda>h pw. Inr True),
      index_html = ''<html></html>''\<rparr>"

definition sample_state :: app_state where
  "sample_state =
     \<lparr>extracted_texts = Map.empty,
      users = [\<lparr>uid = 1, email = ''a@example.com'', password = ''hash'', api_keys = Some ''[]''\<rparr>]\<rparr>"

section \<open>Properties of the chat gateway\<close>

text \<open>What the \<^verbatim>\<open>try\<close> block of \<^verbatim>\<open>chat\<close> does once both fields pass the check and the key is a string.\<close>

lemma chat_try_valid:
  assumes "get_field body ''input'' = Inr user_input"
      and "get_field body ''api_key'' = Inr (JStr k)"
      and "truthy user_input" and "k \<noteq> []"
  shows "chat_try client texts (Inr body) =
     (let rq = chat_request (chat_messages
                 (case texts k of None \<Rightarrow> ''No context available for this API key.'' | Some t \<Rightarrow> t)
                 user_input)
      in case client rq of
           Inl e \<Rightarrow> (Inl e, [rq])
         | Inr [] \<Rightarrow> (Inl (Exn IndexError ''list index out of range''), [rq])
         | Inr (c # cs) \<Rightarrow> (Inr (Json 200 (JObj [(''response'', JStr c)])), [rq]))"
  using assms by (simp add: chat_try_def get_context_def Let_def split: sum.splits list.splits)

lemma chat_calls_valid:
  assumes "get_field body ''input'' = Inr user_input"
      and "get_field body ''api_key'' = Inr (JStr k)"
      and "truthy user_input" and "k \<noteq> []"
  shows "snd (chat client texts (Inr body)) =
     [chat_request (chat_messages
        (case texts k of None \<Rightarrow> ''No context available for this API key.'' | Some t \<Rightarrow> t)
        user_input)]"
  by (simp add: chat_def chat_try_valid [OF assms] Let_def split: sum.splits list.splits)

text \<open>
  C2: for a key that is absent from the context store the lookup of line 248 gives the
  string \<^verbatim>\<open>No context available for this API key.\<close>, a value and not an exception;
  the one completion call \<^verbatim>\<open>chat\<close> then makes carries that string in its system
  message, and when the call answers, the request succeeds with the reply.
\<close>

theorem missing_context_sentinel:
  assumes "texts k = None"
  shows "get_context texts (JStr k) = Inr ''No context available for this API key.''
     \<and> (get_field body ''input'' = Inr user_input \<and> get_field body ''api_key'' = Inr (JStr k) \<and>
          truthy user_input \<and> k \<noteq> []
        \<longrightarrow> map messages (snd (chat client texts (Inr body))) =
              [[\<lparr>role = ''system'',
                 content = JStr ''You are a chatbot trained on the following website content: No context available for this API key.''\<rparr>,
                \<lparr>role = ''user'', content = user_input\<rparr>]]
          \<and> (\<forall>rq c cs. snd (chat client texts (Inr body)) = [rq] \<and> client rq = Inr (c # cs)
                \<longrightarrow> fst (chat client texts (Inr body)) =
                      Inr (Json 200 (JObj [(''response'', JStr c)]))))"
proof (intro conjI impI)
  show "get_context texts (JStr k) = Inr ''No context available for this API key.''"
    using assms by (simp add: get_context_def)
next
  assume h: "get_field body ''input'' = Inr user_input \<and> get_field body ''api_key'' = Inr (JStr k) \<and>
          truthy user_input \<and> k \<noteq> []"
  then have v: "get_field body ''input'' = Inr user_input" "get_field body ''api_key'' = Inr (JStr k)"
    "truthy user_input" "k \<noteq> []" by simp_all
  show "map messages (snd (chat client texts (Inr body))) =
              [[\<lparr>role = ''system'',
                 content = JStr ''You are a chatbot trained on the following website content: No context available for this API key.''\<rparr>,
                \<lparr>role = ''user'', content = user_input\<rparr>]]"
    using assms by (simp add: chat_calls_valid [OF v] chat_request_def chat_messages_def)
  show "\<forall>rq c cs. snd (chat client texts (Inr body)) = [rq] \<and> client rq = Inr (c # cs)
                \<longrightarrow> fst (chat client texts (Inr body)) =
                      Inr (Json 200 (JObj [(''response'', JStr c)]))"
  proof (intro allI impI)
    fix rq c cs
    assume a: "snd (chat client texts (Inr body)) = [rq] \<and> client rq = Inr (c # cs)"
    with chat_calls_valid [OF v, of client texts] assms
    have "client (chat_request (chat_messages ''No context available for this API key.'' user_input)) =
        Inr (c # cs)"
      by simp
    then show "fst (chat client texts (Inr body)) = Inr (Json 200 (JObj [(''response'', JStr c)]))"
      using assms by (simp add: chat_def chat_try_valid [OF v] Let_def)
  qed
qed

theorem missing_context_sentinel_witness:
  "(Map.empty :: string \<rightharpoonup> string) ''user_x'' = None
   \<and> get_context Map.empty (JStr ''user_x'') = Inr ''No context available for this API key.''
   \<and> map messages (snd (chat sample_create Map.empty
        (Inr (JObj [(''input'', JStr ''hello''), (''api_key'', JStr ''user_x'')])))) =
       [[\<lparr>role = ''system'',
          content = JStr ''You are a chatbot trained on the following website content: No context available for this API key.''\<rparr>,
         \<lparr>role = ''user'', content = JStr ''hello''\<rparr>]]
   \<and> fst (chat sample_create Map.empty
        (Inr (JObj [(''input'', JStr ''hello''), (''api_key'', JStr ''user_x'')]))) =
       Inr (Json 200 (JObj [(''response'', JStr ''Hi there'')]))"
proof -
  let ?body = "JObj [(''input'', JStr ''hello''), (''api_key'', JStr ''user_x'')]"
  have h: "(Map.empty :: string \<rightharpoonup> string) ''user_x'' = None" by simp
  have v: "get_field ?body ''input'' = Inr (JStr ''hello'') \<and>
           get_field ?body ''api_key'' = Inr (JStr ''user_x'') \<and>
           truthy (JStr ''hello'') \<and> ''user_x'' \<noteq> []" by simp
  note t = missing_context_sentinel [OF h, where body = ?body and user_input = "JStr ''hello''"
      and client = sample_create]
  from t have g: "get_context Map.empty (JStr ''user_x'') = Inr ''No context available for this API key.''"
    by (rule conjunct1)
  from t v have m: "map messages (snd (chat sample_create Map.empty (Inr ?body))) =
       [[\<lparr>role = ''system'',
          content = JStr ''You are a chatbot trained on the following website content: No context available for this API key.''\<rparr>,
         \<lparr>role = ''user'', content = JStr ''hello''\<rparr>]]"
    by blast
  from t v have r: "\<forall>rq c cs. snd (chat sample_create Map.empty (Inr ?body)) = [rq] \<and>
        sample_create rq = Inr (c # cs)
      \<longrightarrow> fst (chat sample_create Map.empty (Inr ?body)) = Inr (Json 200 (JObj [(''response'', JStr c)]))"
    by blast
  from m obtain rq where rq: "snd (chat sample_create Map.empty (Inr ?body)) = [rq]"
    by (cases "snd (chat sample_create Map.empty (Inr ?body))") auto
  have "sample_create rq = Inr [''Hi there'']" by (simp add: sample_create_def)
  with r rq have "fst (chat sample_create Map.empty (Inr ?body)) =
      Inr (Json 200 (JObj [(''response'', JStr ''Hi there'')]))"
    by blast
  with h g m show ?thesis by blast
qed

text \<open>
  C3: for a non-empty string key and a non-empty user input, \<^verbatim>\<open>chat\<close> makes exactly one
  completion call; the request it sends has the fixed model and generation parameters
  and exactly two messages: a system message that says the assistant is trained on the
  retrieved context (the stored text, or the sentinel when the key is unknown) and a user
  message that holds the input as it came.
\<close>

theorem chat_prompt:
  assumes "get_field body ''input'' = Inr user_input"
      and "get_field body ''api_key'' = Inr (JStr k)"
      and "truthy user_input" and "k \<noteq> []"
  shows "snd (chat client texts (Inr body)) =
     [\<lparr>model = ''meta-llama/Meta-Llama-3.1-8B-Instruct-Turbo'',
       messages =
         [\<lparr>role = ''system'',
           content = JStr (''You are a chatbot trained on the following website content: '' @
             (case texts k of None \<Rightarrow> ''No context available for this API key.'' | Some t \<Rightarrow> t))\<rparr>,
          \<lparr>role = ''user'', content = user_input\<rparr>],
       max_tokens = 512,
       temperature = 0x3FE6666666666666,
       top_p = 0x3FE6666666666666,
       top_k = 50,
       repetition_penalty = 1,
       stop = [''<|eot_id|>'', ''<|eom_id|>'']\<rparr>]"
  by (simp add: chat_calls_valid [OF assms] chat_request_def chat_messages_def)

theorem chat_prompt_witness:
  "get_field (JObj [(''input'', JStr ''hello''), (''api_key'', JStr ''user_x'')]) ''input'' = Inr (JStr ''hello'')
   \<and> get_field (JObj [(''input'', JStr ''hello''), (''api_key'', JStr ''user_x'')]) ''api_key'' = Inr (JStr ''user_x'')
   \<and> truthy (JStr ''hello'') \<and> ''user_x'' \<noteq> []
   \<and> map messages (snd (chat sample_create Map.empty
         (Inr (JObj [(''input'', JStr ''hello''), (''api_key'', JStr ''user_x'')])))) =
       [[\<lparr>role = ''system'',
          content = JStr ''You are a chatbot trained on the following website content: No context available for this API key.''\<rparr>,
         \<lparr>role = ''user'', content = JStr ''hello''\<rparr>]]
   \<and> map messages (snd (chat sample_create [''user_x'' \<mapsto> ''Hello. World.'']
         (Inr (JObj [(''input'', JStr ''hello''), (''api_key'', JStr ''user_x'')])))) =
       [[\<lparr>role = ''system'',
          content = JStr ''You are a chatbot trained on the following website content: Hello. World.''\<rparr>,
         \<lparr>role = ''user'', content = JStr ''hello''\<rparr>]]"
proof -
  let ?body = "JObj [(''input'', JStr ''hello''), (''api_key'', JStr ''user_x'')]"
  have h1: "get_field ?body ''input'' = Inr (JStr ''hello'')" by simp
  have h2: "get_field ?body ''api_key'' = Inr (JStr ''user_x'')" by simp
  have h3: "truthy (JStr ''hello'')" by simp
  have h4: "''user_x'' \<noteq> []" by simp
  show ?thesis
    using h1 h2 h3 h4
      chat_prompt [OF h1 h2 h3 h4, of sample_create Map.empty]
      chat_prompt [OF h1 h2 h3 h4, of sample_create "[''user_x'' \<mapsto> ''Hello. World.'']"]
    by simp
qed

text \<open>
  C4: when the input or the API key of the body is missing or empty, \<^verbatim>\<open>chat\<close> answers
  400 and makes no completion call; the state stays as it was.
\<close>

theorem chat_bad_request:
  assumes "get_field body ''input'' = Inr user_input"
      and "get_field body ''api_key'' = Inr api_key"
      and "\<not> truthy user_input \<or> \<not> truthy api_key"
  shows "handle env (Chat (Inr body)) session st =
     \<lparr>result = Inr (Json 400 (JObj [(''error'', JStr ''Input and API key are required'')])),
      state = st, cookie = session, calls = []\<rparr>"
  using assms by (auto simp add: chat_def chat_try_def)

theorem chat_bad_request_witness:
  "get_field (JObj [(''input'', JStr ''''), (''api_key'', JStr ''user_x'')]) ''input'' = Inr (JStr '''')
   \<and> get_field (JObj [(''input'', JStr ''''), (''api_key'', JStr ''user_x'')]) ''api_key'' = Inr (JStr ''user_x'')
   \<and> \<not> truthy (JStr '''')
   \<and> handle (sample_env 7) (Chat (Inr (JObj [(''input'', JStr ''''), (''api_key'', JStr ''user_x'')])))
         None sample_state =
       \<lparr>result = Inr (Json 400 (JObj [(''error'', JStr ''Input and API key are required'')])),
        state = sample_state, cookie = None, calls = []\<rparr>
   \<and> get_field (JObj [(''input'', JStr ''hi'')]) ''api_key'' = Inr JNull
   \<and> \<not> truthy JNull
   \<and> handle (sample_env 7) (Chat (Inr (JObj [(''input'', JStr ''hi'')]))) None sample_state =
       \<lparr>result = Inr (Json 400 (JObj [(''error'', JStr ''Input and API key are required'')])),
        state = sample_state, cookie = None, calls = []\<rparr>"
proof -
  let ?b1 = "JObj [(''input'', JStr ''''), (''api_key'', JStr ''user_x'')]"
  let ?b2 = "JObj [(''input'', JStr ''hi'')]"
  have a1: "get_field ?b1 ''input'' = Inr (JStr '''')" by simp
  have a2: "get_field ?b1 ''api_key'' = Inr (JStr ''user_x'')" by simp
  have a3: "\<not> truthy (JStr '''') \<or> \<not> truthy (JStr ''user_x'')" by simp
  have b1: "get_field ?b2 ''input'' = Inr (JStr ''hi'')" by simp
  have b2: "get_field ?b2 ''api_key'' = Inr JNull" by simp
  have b3: "\<not> truthy (JStr ''hi'') \<or> \<not> truthy JNull" by simp
  show ?thesis
    using a1 a2 b2
      chat_bad_request [OF a1 a2 a3, of "sample_env 7" None sample_state]
      chat_bad_request [OF b1 b2 b3, of "sample_env 7" None sample_state]
    by simp
qed

text \<open>
  How \<^verbatim>\<open>chat\<close> ends when its \<^verbatim>\<open>try\<close> block raises: a \<^verbatim>\<open>RequestException\<close> becomes
  the JSON response 503; with any other exception the second clause is reached, and the
  \<^verbatim>\<open>AttributeError\<close> of its expression leaves the view function.
\<close>

lemma chat_failure:
  assumes "fst (chat_try client texts rj) = Inl e"
  shows "fst (chat client texts rj) =
     (if exn_class_of e = RequestException
      then Inr (Json 503 (JObj [(''error'', JStr (''Network error: '' @ str e))]))
      else Inl (Exn AttributeError
             (''type object '' @ quoted ''Together'' @ '' has no attribute '' @ quoted ''APIError'')))"
  using assms
  by (cases "chat_try client texts rj") (simp add: chat_def chat_except_def Together_APIError_def)

text \<open>
  C5, where the code departs from it: when the completion call raises the library's
  \<^verbatim>\<open>APIError\<close>, and when the lookup raises \<^verbatim>\<open>TypeError\<close> for a key that is a list, the
  handler returns no JSON response: an \<^verbatim>\<open>AttributeError\<close> leaves the view function.
  Only a \<^verbatim>\<open>RequestException\<close> is answered as the claim says, with 503.
\<close>

theorem chat_failure_escapes:
  "fst (chat (failing_create (Exn APIError ''rate limit'')) Map.empty
          (Inr (JObj [(''input'', JStr ''hello''), (''api_key'', JStr ''user_x'')]))) =
     Inl (Exn AttributeError
       (''type object '' @ quoted ''Together'' @ '' has no attribute '' @ quoted ''APIError''))
   \<and> fst (chat sample_create Map.empty
          (Inr (JObj [(''input'', JStr ''hello''), (''api_key'', JArr [JStr ''user_x''])]))) =
     Inl (Exn AttributeError
       (''type object '' @ quoted ''Together'' @ '' has no attribute '' @ quoted ''APIError''))
   \<and> fst (chat (failing_create (Exn RequestException ''timed out'')) Map.empty
          (Inr (JObj [(''input'', JStr ''hello''), (''api_key'', JStr ''user_x'')]))) =
     Inr (Json 503 (JObj [(''error'', JStr ''Network error: timed out'')]))"
proof -
  let ?b = "Inr (JObj [(''input'', JStr ''hello''), (''api_key'', JStr ''user_x'')]) :: exn + json"
  let ?c = "Inr (JObj [(''input'', JStr ''hello''), (''api_key'', JArr [JStr ''user_x''])]) :: exn + json"
  have t1: "fst (chat_try (failing_create (Exn APIError ''rate limit'')) Map.empty ?b) =
      Inl (Exn APIError ''rate limit'')"
    by (simp add: chat_try_def get_context_def failing_create_def)
  have t2: "fst (chat_try sample_create Map.empty ?c) =
      Inl (Exn TypeError (''unhashable type: '' @ quoted ''list''))"
    by (simp add: chat_try_def get_context_def)
  have t3: "fst (chat_try (failing_create (Exn RequestException ''timed out'')) Map.empty ?b) =
      Inl (Exn RequestException ''timed out'')"
    by (simp add: chat_try_def get_context_def failing_create_def)
  show ?thesis
    using chat_failure [OF t1] chat_failure [OF t2] chat_failure [OF t3] by simp
qed

section \<open>Properties of the keys\<close>

text \<open>The rendering of a UUID has 32 hexadecimal digits and loses nothing of its value.\<close>

lemma length_hex: "length (hex u) = 32"
  by (simp add: hex_def)

lemma nibble_less: "unat ((w :: 128 word) AND 15) < 16"
proof -
  have "unat (w AND 15) \<le> unat (15 :: 128 word)"
    by (rule word_and_le1 [THEN word_le_nat_alt [THEN iffD1]])
  then show ?thesis by simp
qed

lemma hexdigit_in: "n < 16 \<Longrightarrow> hexdigit n \<in> set ''0123456789abcdef''"
  unfolding hexdigit_def by (rule nth_mem) simp

lemma hex_digits: "set (hex u) \<subseteq> set ''0123456789abcdef''"
  unfolding hex_def using hexdigit_in [OF nibble_less] by auto

lemma hexdigit_inj: "m < 16 \<Longrightarrow> n < 16 \<Longrightarrow> hexdigit m = hexdigit n \<Longrightarrow> m = n"
  unfolding hexdigit_def
  by (subst (asm) nth_eq_iff_index_eq) simp_all

lemma fifteen_mask: "(15 :: 128 word) = mask 4"
  by (simp add: mask_eq_exp_minus_1)

lemma hex_inj:
  assumes "hex u = hex v"
  shows "u = v"
proof (rule bit_word_eqI)
  fix n assume n: "n < LENGTH(128)"
  define i where "i = n div 4"
  have i: "i < 32" using n by (simp add: i_def)
  from assms have "\<forall>j \<in> set (rev [0..<32]).
      hexdigit (unat (drop_bit (4 * j) u AND 15)) = hexdigit (unat (drop_bit (4 * j) v AND 15))"
    unfolding hex_def by (simp only: map_eq_conv)
  with i have "hexdigit (unat (drop_bit (4 * i) u AND 15)) = hexdigit (unat (drop_bit (4 * i) v AND 15))"
    by simp
  then have "unat (drop_bit (4 * i) u AND 15) = unat (drop_bit (4 * i) v AND 15)"
    by (rule hexdigit_inj [OF nibble_less nibble_less])
  then have eq: "drop_bit (4 * i) u AND 15 = drop_bit (4 * i) v AND 15"
    by (simp add: word_unat_eq_iff)
  have "bit (drop_bit (4 * i) u AND mask 4) (n mod 4) = bit (drop_bit (4 * i) v AND mask 4) (n mod 4)"
    using eq by (simp add: fifteen_mask)
  moreover have "n mod 4 < 128" by arith
  ultimately have "bit u (4 * i + n mod 4) = bit v (4 * i + n mod 4)"
    by (simp add: bit_and_iff bit_drop_bit_eq bit_mask_iff)
  moreover have "4 * i + n mod 4 = n" by (simp add: i_def)
  ultimately show "bit u n = bit v n" by simp
qed

lemma key_inj: "(new_api_key u = new_api_key v) = (u = v)"
  using hex_inj by (auto simp add: new_api_key_def)

lemma sample_key: "new_api_key 0x0123456789ab4def8123456789abcdef = ''user_0123456789ab4def8123456789abcdef''"
  by (simp add: new_api_key_def hex_def hexdigit_def upt_rec)

section \<open>Properties of the context store\<close>








text \<open>A run of \<^verbatim>\<open>process_url\<close> on the sample surroundings.\<close>

lemma sample_process_url:
  "process_url (sample_env u) sample_state (Some 1) (Inr (JObj [(''url'', JStr ''http://example.com/a'')])) =
     (Inr (Json 200 (JObj
        [(''message'', JStr ''Processing complete''),
         (''api_key'', JStr (new_api_key u)),
         (''integration_code'', JStr (generate_integration_script (new_api_key u)))])),
      \<lparr>extracted_texts = [new_api_key u \<mapsto> ''Hello. World.''],
       users = [\<lparr>uid = 1, email = ''a@example.com'', password = ''hash'',
                 api_keys = Some (sample_dumps (JArr [JStr (new_api_key u)]))\<rparr>]\<rparr>,
      [Fetch (JStr ''http://example.com/a'')])"
  by (simp add: process_url_def process_url_try_def extract_text_from_url_def sample_env_def
      sample_get_def sample_find_all_p_def sample_state_def query_get_def loads_api_keys_def
      sample_loads_def Let_def)



section \<open>Properties of the extraction request\<close>

lemma process_url_fetch_fails:
  assumes "get_field body ''url'' = Inr url" and "truthy url" and "requests_get env url = Inl e"
  shows "process_url env st (Some user_id) (Inr body) =
           (Inr (Json 500 (JObj [(''error'', JStr (str e))])), st, [Fetch url])"
  using assms by (simp add: process_url_def process_url_try_def extract_text_from_url_def)

lemma process_url_try_users:
  assumes "users (snd (process_url_try env st user_id url)) \<noteq> users st"
  shows "\<exists>t u ks.
      extract_text_from_url (requests_get env) (find_all_p env) url = Inr t
    \<and> query_get (users st) user_id = Some u
    \<and> loads_api_keys env u = Inr (JArr ks)
    \<and> extracted_texts (snd (process_url_try env st user_id url)) (new_api_key (uuid4 env)) = Some t
    \<and> users (snd (process_url_try env st user_id url)) =
        map (\<lambda>r. if uid r = user_id
                  then r\<lparr>api_keys := Some (json_dumps env (JArr (ks @ [JStr (new_api_key (uuid4 env))])))\<rparr>
                  else r) (users st)"
  using assms
  by (auto simp add: process_url_try_def Let_def split: sum.splits option.splits json.splits)

text \<open>
  C6: whenever \<^verbatim>\<open>process_url\<close> changes the user table, it appends the new key to the
  list of the logged-in user, and the context store already holds the extracted text
  under that key; and when the fetch raises, the request fails with 500, nothing is
  stored and no list changes.
\<close>

theorem key_appended_only_with_context:
  "(users (fst (snd (process_url env st session rj))) \<noteq> users st \<longrightarrow>
      (\<exists>user_id url t u ks.
          session = Some user_id
        \<and> extract_text_from_url (requests_get env) (find_all_p env) url = Inr t
        \<and> query_get (users st) user_id = Some u
        \<and> loads_api_keys env u = Inr (JArr ks)
        \<and> extracted_texts (fst (snd (process_url env st session rj))) (new_api_key (uuid4 env)) = Some t
        \<and> users (fst (snd (process_url env st session rj))) =
            map (\<lambda>r. if uid r = user_id
                      then r\<lparr>api_keys := Some (json_dumps env (JArr (ks @ [JStr (new_api_key (uuid4 env))])))\<rparr>
                      else r) (users st)))
   \<and> (session = Some user_id \<and> rj = Inr body \<and> get_field body ''url'' = Inr url \<and> truthy url \<and>
       requests_get env url = Inl e \<longrightarrow>
         process_url env st session rj =
           (Inr (Json 500 (JObj [(''error'', JStr (str e))])), st, [Fetch url]))"
proof (intro conjI impI)
  assume ch: "users (fst (snd (process_url env st session rj))) \<noteq> users st"
  then have "fst (snd (process_url env st session rj)) \<noteq> st" by auto
  show "\<exists>user_id url t u ks.
          session = Some user_id
        \<and> extract_text_from_url (requests_get env) (find_all_p env) url = Inr t
        \<and> query_get (users st) user_id = Some u
        \<and> loads_api_keys env u = Inr (JArr ks)
        \<and> extracted_texts (fst (snd (process_url env st session rj))) (new_api_key (uuid4 env)) = Some t
        \<and> users (fst (snd (process_url env st session rj))) =
            map (\<lambda>r. if uid r = user_id
                      then r\<lparr>api_keys := Some (json_dumps env (JArr (ks @ [JStr (new_api_key (uuid4 env))])))\<rparr>
                      else r) (users st)"
  proof (cases "\<exists>user_id body url. session = Some user_id \<and> rj = Inr body \<and>
                get_field body ''url'' = Inr url \<and> truthy url")
    case True
    then obtain user_id body url where s: "session = Some user_id" "rj = Inr body"
      "get_field body ''url'' = Inr url" "truthy url" by blast
    then have eq: "fst (snd (process_url env st session rj)) = snd (process_url_try env st user_id url)"
      by (simp add: process_url_def split: prod.splits sum.splits)
    from process_url_try_users [of env st user_id url] ch eq s(1) show ?thesis
      by (simp only:) blast
  next
    case False
    then have "fst (snd (process_url env st session rj)) = st"
      by (auto simp add: process_url_def split: option.splits sum.splits)
    with ch show ?thesis by simp
  qed
next
  assume "session = Some user_id \<and> rj = Inr body \<and> get_field body ''url'' = Inr url \<and> truthy url \<and>
       requests_get env url = Inl e"
  then show "process_url env st session rj =
           (Inr (Json 500 (JObj [(''error'', JStr (str e))])), st, [Fetch url])"
    using process_url_fetch_fails by simp
qed

theorem key_appended_only_with_context_witness:
  "users (fst (snd (process_url (sample_env 0x0123456789ab4def8123456789abcdef) sample_state (Some 1)
       (Inr (JObj [(''url'', JStr ''http://example.com/a'')]))))) \<noteq> users sample_state
   \<and> extracted_texts (fst (snd (process_url (sample_env 0x0123456789ab4def8123456789abcdef) sample_state (Some 1)
       (Inr (JObj [(''url'', JStr ''http://example.com/a'')])))))
       ''user_0123456789ab4def8123456789abcdef'' = Some ''Hello. World.''
   \<and> requests_get (sample_env 0x0123456789ab4def8123456789abcdef) (JStr ''http://nowhere.invalid/'') =
       Inl (Exn RequestException ''connection refused'')
   \<and> process_url (sample_env 0x0123456789ab4def8123456789abcdef) sample_state (Some 1)
       (Inr (JObj [(''url'', JStr ''http://nowhere.invalid/'')])) =
       (Inr (Json 500 (JObj [(''error'', JStr ''connection refused'')])), sample_state,
        [Fetch (JStr ''http://nowhere.invalid/'')])"
proof -
  let ?ok = "Inr (JObj [(''url'', JStr ''http://example.com/a'')]) :: exn + json"
  let ?bad = "JObj [(''url'', JStr ''http://nowhere.invalid/'')]"
  have ch: "users (fst (snd (process_url (sample_env 0x0123456789ab4def8123456789abcdef) sample_state (Some 1) ?ok))) \<noteq>
        users sample_state"
    unfolding sample_process_url by (simp add: sample_state_def sample_dumps_def)
  have f: "requests_get (sample_env 0x0123456789ab4def8123456789abcdef) (JStr ''http://nowhere.invalid/'') =
       Inl (Exn RequestException ''connection refused'')"
    by (simp add: sample_env_def sample_get_def)
  have g: "get_field ?bad ''url'' = Inr (JStr ''http://nowhere.invalid/'')" by simp
  from key_appended_only_with_context
    [of "sample_env 0x0123456789ab4def8123456789abcdef" sample_state "Some 1" ?ok 1 ?bad
        "JStr ''http://nowhere.invalid/''" "Exn RequestException ''connection refused''"] ch
  obtain t where
    t: "extracted_texts
          (fst (snd (process_url (sample_env 0x0123456789ab4def8123456789abcdef) sample_state (Some 1) ?ok)))
          (new_api_key (uuid4 (sample_env 0x0123456789ab4def8123456789abcdef))) = Some t"
    by blast
  have "t = ''Hello. World.''"
    using t unfolding sample_process_url by (simp add: sample_env_def)
  with t have c2: "extracted_texts (fst (snd (process_url (sample_env 0x0123456789ab4def8123456789abcdef) sample_state (Some 1) ?ok)))
       ''user_0123456789ab4def8123456789abcdef'' = Some ''Hello. World.''"
    by (simp add: sample_env_def sample_key)
  have c3: "process_url (sample_env 0x0123456789ab4def8123456789abcdef) sample_state (Some 1) (Inr ?bad) =
       (Inr (Json 500 (JObj [(''error'', JStr ''connection refused'')])), sample_state,
        [Fetch (JStr ''http://nowhere.invalid/'')])"
    using key_appended_only_with_context
      [of "sample_env 0x0123456789ab4def8123456789abcdef" sample_state "Some 1" "Inr ?bad" 1 ?bad "JStr ''http://nowhere.invalid/''"
        "Exn RequestException ''connection refused''"] f g
    by simp
  show ?thesis using ch c2 f c3 by blast
qed

lemma returned_key_try:
  "returned_key (fst (process_url_try env st user_id url)) = Some k \<Longrightarrow> k = new_api_key (uuid4 env)"
  by (auto simp add: process_url_try_def Let_def no_attribute_def
        split: sum.splits option.splits json.splits if_splits)

lemma returned_key_process_url:
  assumes "returned_key (fst (process_url env st session rj)) = Some k"
  shows "k = new_api_key (uuid4 env)"
proof -
  have "returned_key (fst (process_url_try env st user_id url)) = Some k \<Longrightarrow> k = new_api_key (uuid4 env)"
    for user_id url by (rule returned_key_try)
  with assms show ?thesis
    by (auto simp add: process_url_def split: option.splits sum.splits prod.splits if_splits)
      (metis fst_conv)
qed

text \<open>
  C9: every key \<^verbatim>\<open>process_url\<close> returns is \<^verbatim>\<open>user_\<close> followed by the 32 hexadecimal
  digits of the UUID drawn for it, and two calls return the same key only when
  \<^verbatim>\<open>uuid4\<close> drew the same value twice: as long as the draws differ, no key is returned
  twice.
\<close>

theorem issued_key_format_and_distinct:
  "(returned_key (fst (process_url env st session rj)) = Some k \<longrightarrow>
      (\<exists>h. k = ''user_'' @ h \<and> h = hex (uuid4 env) \<and> length h = 32 \<and>
           set h \<subseteq> set ''0123456789abcdef''))
   \<and> (returned_key (fst (process_url env st session rj)) = Some k \<and>
       returned_key (fst (process_url env' st' session' rj')) = Some k' \<longrightarrow>
         (k = k') = (uuid4 env = uuid4 env'))"
proof (intro conjI impI)
  assume "returned_key (fst (process_url env st session rj)) = Some k"
  then have "k = new_api_key (uuid4 env)" by (rule returned_key_process_url)
  then show "\<exists>h. k = ''user_'' @ h \<and> h = hex (uuid4 env) \<and> length h = 32 \<and>
           set h \<subseteq> set ''0123456789abcdef''"
    using length_hex [of "uuid4 env"] hex_digits [of "uuid4 env"]
    by (simp add: new_api_key_def)
next
  assume "returned_key (fst (process_url env st session rj)) = Some k \<and>
       returned_key (fst (process_url env' st' session' rj')) = Some k'"
  then have "k = new_api_key (uuid4 env)" "k' = new_api_key (uuid4 env')"
    by (auto dest: returned_key_process_url)
  then show "(k = k') = (uuid4 env = uuid4 env')"
    by (simp add: key_inj)
qed

theorem issued_key_format_and_distinct_witness:
  "returned_key (fst (process_url (sample_env 0x0123456789ab4def8123456789abcdef) sample_state (Some 1)
       (Inr (JObj [(''url'', JStr ''http://example.com/a'')])))) =
     Some ''user_0123456789ab4def8123456789abcdef''
   \<and> length ''0123456789ab4def8123456789abcdef'' = 32
   \<and> (\<exists>k'. returned_key (fst (process_url (sample_env 0x0123456789ab4def8123456789abcdf0) sample_state (Some 1)
       (Inr (JObj [(''url'', JStr ''http://example.com/a'')])))) = Some k'
       \<and> k' \<noteq> ''user_0123456789ab4def8123456789abcdef'')"
proof -
  let ?rj = "Inr (JObj [(''url'', JStr ''http://example.com/a'')]) :: exn + json"
  have k1: "returned_key (fst (process_url (sample_env 0x0123456789ab4def8123456789abcdef) sample_state (Some 1) ?rj)) =
      Some ''user_0123456789ab4def8123456789abcdef''"
    unfolding sample_process_url by (simp add: sample_key)
  have k2: "returned_key (fst (process_url (sample_env 0x0123456789ab4def8123456789abcdf0) sample_state (Some 1) ?rj)) =
      Some (new_api_key 0x0123456789ab4def8123456789abcdf0)"
    unfolding sample_process_url by simp
  have "(''user_0123456789ab4def8123456789abcdef'' = new_api_key 0x0123456789ab4def8123456789abcdf0) =
        (uuid4 (sample_env 0x0123456789ab4def8123456789abcdef) = uuid4 (sample_env 0x0123456789ab4def8123456789abcdf0))"
    using issued_key_format_and_distinct
      [of "sample_env 0x0123456789ab4def8123456789abcdef" sample_state "Some 1" ?rj "''user_0123456789ab4def8123456789abcdef''"
          "sample_env 0x0123456789ab4def8123456789abcdf0" sample_state "Some 1" ?rj "new_api_key 0x0123456789ab4def8123456789abcdf0"] k1 k2
    by blast
  then have "new_api_key 0x0123456789ab4def8123456789abcdf0 \<noteq> ''user_0123456789ab4def8123456789abcdef''"
    by (simp add: sample_env_def eq_commute)
  with k1 k2 show ?thesis by simp
qed

section \<open>Properties of the content extractor\<close>




section \<open>Properties of the widget\<close>

text \<open>
  C10: for any non-empty \<^verbatim>\<open>api_key\<close> query parameter \<^verbatim>\<open>chatbot_design\<close> answers 200
  with the widget markup around that string as it came; the answer is the same in every
  state, so neither the context store nor the user table is consulted.
\<close>

theorem widget_for_any_key:
  assumes "map_of args ''api_key'' = Some api_key" and "api_key \<noteq> []"
  shows "handle env (ChatbotDesign args) session st =
           \<lparr>result = Inr (Html 200 (design_head @ api_key @ design_tail)),
            state = st, cookie = session, calls = []\<rparr>
       \<and> result (handle env (ChatbotDesign args) session st) =
         result (handle env' (ChatbotDesign args) session' st')"
  using assms by (simp add: chatbot_design_def)

theorem widget_for_any_key_witness:
  "map_of [(''api_key'', ''never_issued'')] ''api_key'' = Some ''never_issued''
   \<and> ''never_issued'' \<noteq> []
   \<and> handle (sample_env 7) (ChatbotDesign [(''api_key'', ''never_issued'')]) None sample_state =
       \<lparr>result = Inr (Html 200 (design_head @ ''never_issued'' @ design_tail)),
        state = sample_state, cookie = None, calls = []\<rparr>"
proof -
  have h1: "map_of [(''api_key'', ''never_issued'')] ''api_key'' = Some ''never_issued''" by simp
  have h2: "''never_issued'' \<noteq> []" by simp
  show ?thesis
    using h1 h2 widget_for_any_key [OF h1 h2, of "sample_env 7" None sample_state]
    by blast
qed

section \<open>Properties of the rate limiter\<close>

lemma serve_same:
  assumes "window_inv lim a b t0 k" and "t0 \<le> t" and "t < t0 + 60"
      and "limited_bucket rq = Some b"
  shows "fst (serve (env, t, a, rq, c) (st, lim)) =
           (if k < 5 then handle env rq c st else rate_limited c st)"
    and "window_inv (snd (serve (env, t, a, rq, c) (st, lim))) a b t0 (Suc k)"
  using assms
  by (auto simp add: window_inv_def window_closed_def allow_def min_def
        split: option.splits prod.splits if_splits bool.splits)

lemma limited_bucket_names:
  "limited_bucket rq = Some b \<Longrightarrow> b = ''process_url'' \<or> b = ''chat''"
  by (cases rq) auto

lemma allow_other:
  "(a', b') \<noteq> (a, b) \<Longrightarrow> snd (allow n w now lim a' b') (a, b) = lim (a, b)"
  by (auto simp add: allow_def split: option.splits prod.splits if_splits)

lemma serve_other:
  assumes "\<not> same_bucket a b x" and "b = ''process_url'' \<or> b = ''chat''"
  shows "snd (serve x (st, lim)) (a, b) = lim (a, b)"
proof -
  obtain env t addr rq c where x: "x = (env, t, addr, rq, c)" by (cases x)
  show ?thesis
  proof (cases "limited_bucket rq")
    case (Some b')
    with assms(1) x have "(addr, b') \<noteq> (a, b)" by auto
    from allow_other [OF this, of 5 60 t lim] Some x show ?thesis
      by (auto split: prod.splits bool.splits)
  next
    case None
    have d: "(addr, endpoint rq @ '' per day'') \<noteq> (a, b)"
      using assms(2) by (cases rq) auto
    have h: "(addr, endpoint rq @ '' per hour'') \<noteq> (a, b)"
      using assms(2) by (cases rq) auto
    have "snd (allow 50 3600 t (snd (allow 200 86400 t lim addr (endpoint rq @ '' per day'')))
            addr (endpoint rq @ '' per hour'')) (a, b) = lim (a, b)"
      by (simp add: allow_other [OF h] allow_other [OF d])
    with allow_other [OF d, of 200 86400 t lim] None x show ?thesis
      by (auto split: prod.splits bool.splits)
  qed
qed

lemma window_inv_cong:
  "lim' (a, b) = lim (a, b) \<Longrightarrow> window_inv lim' a b t0 k = window_inv lim a b t0 k"
  by (simp add: window_inv_def window_closed_def)

lemma serve_all_nth:
  assumes "window_inv lim a b t0 k"
      and "\<forall>x \<in> set arrivals. same_bucket a b x \<longrightarrow> t0 \<le> arrival_time x \<and> arrival_time x < t0 + 60"
      and "i < length arrivals"
      and "arrivals ! i = (env, t, a, rq, c)"
      and "limited_bucket rq = Some b"
  shows "serve_all arrivals (st, lim) ! i =
     (if k + length (filter (same_bucket a b) (take i arrivals)) < 5
      then handle env rq c (fst (serve_run (take i arrivals) (st, lim)))
      else rate_limited c (fst (serve_run (take i arrivals) (st, lim))))"
  using assms
proof (induction arrivals arbitrary: i st lim k)
  case Nil
  then show ?case by simp
next
  case (Cons x xs)
  obtain out lim' where s: "serve x (st, lim) = (out, lim')" by (cases "serve x (st, lim)")
  show ?case
  proof (cases i)
    case 0
    with Cons.prems have x: "x = (env, t, a, rq, c)" by simp
    with Cons.prems have t: "t0 \<le> t" "t < t0 + 60" by auto
    from serve_same(1) [OF Cons.prems(1) t Cons.prems(5), of env c st] s 0 x
    show ?thesis by (simp del: serve.simps)
  next
    case (Suc j)
    define k' where "k' = (if same_bucket a b x then Suc k else k)"
    have inv: "window_inv lim' a b t0 k'"
    proof (cases "same_bucket a b x")
      case True
      obtain env1 t1 addr1 rq1 c1 where x: "x = (env1, t1, addr1, rq1, c1)" by (cases x)
      with True have ab: "addr1 = a" "limited_bucket rq1 = Some b" by auto
      from Cons.prems(2) True x have t: "t0 \<le> t1" "t1 < t0 + 60" by auto
      from serve_same(2) [OF Cons.prems(1) t ab(2), of env1 c1 st] s x ab True
      show ?thesis by (simp add: k'_def del: serve.simps)
    next
      case False
      from serve_other [OF False limited_bucket_names [OF Cons.prems(5)], of st lim] s
      have "lim' (a, b) = lim (a, b)"
        by (simp del: serve.simps)
      then have "window_inv lim' a b t0 k = window_inv lim a b t0 k"
        by (rule window_inv_cong)
      with Cons.prems(1) False show ?thesis
        by (simp add: k'_def)
    qed
    have "serve_all xs (state out, lim') ! j =
       (if k' + length (filter (same_bucket a b) (take j xs)) < 5
        then handle env rq c (fst (serve_run (take j xs) (state out, lim')))
        else rate_limited c (fst (serve_run (take j xs) (state out, lim'))))"
      using Cons.prems(2-5) Suc by (intro Cons.IH [OF inv]) simp_all
    then show ?thesis
      using s Suc by (simp add: k'_def del: serve.simps)
  qed
qed

lemma chat_keeps_state: "state (handle env (Chat rj) c st) = st"
  by (simp split: prod.splits)

lemma serve_chat_state: "state (fst (serve (env, t, a, Chat rj, c) (st, lim))) = st"
  by (simp add: rate_limited_def chat_keeps_state split: prod.splits bool.splits)

lemma serve_run_chats:
  "\<forall>x \<in> set xs. \<exists>env t a rj c. x = (env, t, a, Chat rj, c) \<Longrightarrow> fst (serve_run xs (st, lim)) = st"
proof (induction xs arbitrary: st lim)
  case Nil
  then show ?case by simp
next
  case (Cons x xs)
  then obtain env t a rj c where x: "x = (env, t, a, Chat rj, c)" by auto
  obtain out lim' where s: "serve x (st, lim) = (out, lim')" by (cases "serve x (st, lim)")
  with serve_chat_state [of env t a rj c st lim] x have "state out = st" by (simp del: serve.simps)
  with Cons s show ?case by (simp del: serve.simps)
qed

text \<open>
  C7: with 5 per minute on \<^verbatim>\<open>process_url\<close> and \<^verbatim>\<open>chat\<close>, take any arrivals, of any
  clients, in which those of one client at one of the two routes fall within 60 seconds
  of a time at which that client has no open window. Then such an arrival is run by its
  view function when fewer than five of them came before it, and otherwise it is
  answered 429, with the state left as it was and no outbound call: the fifth is served,
  the sixth is not.
\<close>

theorem five_per_minute:
  assumes "window_closed lim a b t0"
      and "\<forall>x \<in> set arrivals. same_bucket a b x \<longrightarrow> t0 \<le> arrival_time x \<and> arrival_time x < t0 + 60"
      and "i < length arrivals"
      and "arrivals ! i = (env, t, a, rq, c)"
      and "limited_bucket rq = Some b"
  shows "serve_all arrivals (st, lim) ! i =
     (if length (filter (same_bucket a b) (take i arrivals)) < 5
      then handle env rq c (fst (serve_run (take i arrivals) (st, lim)))
      else rate_limited c (fst (serve_run (take i arrivals) (st, lim))))"
proof -
  have "window_inv lim a b t0 0" using assms(1) by (simp add: window_inv_def)
  from serve_all_nth [OF this assms(2-5), of st] show ?thesis by simp
qed

theorem five_per_minute_witness:
  "window_closed Map.empty ''10.0.0.1'' ''chat'' 100
   \<and> result (serve_all
        [(sample_env 0, 100, ''10.0.0.1'', Chat (Inr (JObj [(''input'', JStr ''hi''), (''api_key'', JStr ''k'')])), None),
         (sample_env 0, 101, ''10.0.0.1'', Chat (Inr (JObj [(''input'', JStr ''hi''), (''api_key'', JStr ''k'')])), None),
         (sample_env 0, 102, ''10.0.0.1'', Chat (Inr (JObj [(''input'', JStr ''hi''), (''api_key'', JStr ''k'')])), None),
         (sample_env 0, 103, ''10.0.0.1'', Chat (Inr (JObj [(''input'', JStr ''hi''), (''api_key'', JStr ''k'')])), None),
         (sample_env 0, 104, ''10.0.0.1'', Chat (Inr (JObj [(''input'', JStr ''hi''), (''api_key'', JStr ''k'')])), None),
         (sample_env 0, 159, ''10.0.0.1'', Chat (Inr (JObj [(''input'', JStr ''hi''), (''api_key'', JStr ''k'')])), None)]
        (sample_state, Map.empty) ! 4) = Inr (Json 200 (JObj [(''response'', JStr ''Hi there'')]))
   \<and> serve_all
        [(sample_env 0, 100, ''10.0.0.1'', Chat (Inr (JObj [(''input'', JStr ''hi''), (''api_key'', JStr ''k'')])), None),
         (sample_env 0, 101, ''10.0.0.1'', Chat (Inr (JObj [(''input'', JStr ''hi''), (''api_key'', JStr ''k'')])), None),
         (sample_env 0, 102, ''10.0.0.1'', Chat (Inr (JObj [(''input'', JStr ''hi''), (''api_key'', JStr ''k'')])), None),
         (sample_env 0, 103, ''10.0.0.1'', Chat (Inr (JObj [(''input'', JStr ''hi''), (''api_key'', JStr ''k'')])), None),
         (sample_env 0, 104, ''10.0.0.1'', Chat (Inr (JObj [(''input'', JStr ''hi''), (''api_key'', JStr ''k'')])), None),
         (sample_env 0, 159, ''10.0.0.1'', Chat (Inr (JObj [(''input'', JStr ''hi''), (''api_key'', JStr ''k'')])), None)]
        (sample_state, Map.empty) ! 5 =
       \<lparr>result = Inr (Json 429 (JObj [(''error'', JStr ''RateLimited'')])),
        state = sample_state, cookie = None, calls = []\<rparr>"
proof -
  let ?rq = "Chat (Inr (JObj [(''input'', JStr ''hi''), (''api_key'', JStr ''k'')]))"
  let ?six = "[(sample_env 0, 100, ''10.0.0.1'', ?rq, None),
         (sample_env 0, 101, ''10.0.0.1'', ?rq, None),
         (sample_env 0, 102, ''10.0.0.1'', ?rq, None),
         (sample_env 0, 103, ''10.0.0.1'', ?rq, None),
         (sample_env 0, 104, ''10.0.0.1'', ?rq, None),
         (sample_env 0, 159, ''10.0.0.1'', ?rq, None)] :: arrival list"
  have closed: "window_closed Map.empty ''10.0.0.1'' ''chat'' 100"
    by (simp add: window_closed_def)
  have times: "\<forall>x \<in> set ?six. same_bucket ''10.0.0.1'' ''chat'' x \<longrightarrow>
      100 \<le> arrival_time x \<and> arrival_time x < 100 + 60"
    by simp
  have b: "limited_bucket ?rq = Some ''chat''" by simp
  have n4: "?six ! 4 = (sample_env 0, 104, ''10.0.0.1'', ?rq, None)" by simp
  have n5: "?six ! 5 = (sample_env 0, 159, ''10.0.0.1'', ?rq, None)" by simp
  have st4: "fst (serve_run (take 4 ?six) (sample_state, Map.empty)) = sample_state"
    by (rule serve_run_chats) (auto dest: in_set_takeD)
  have st5: "fst (serve_run (take 5 ?six) (sample_state, Map.empty)) = sample_state"
    by (rule serve_run_chats) (auto dest: in_set_takeD)
  have c4: "length (filter (same_bucket ''10.0.0.1'' ''chat'') (take 4 ?six)) = 4"
    by (simp add: take_Cons')
  have c5: "length (filter (same_bucket ''10.0.0.1'' ''chat'') (take 5 ?six)) = 5"
    by (simp add: take_Cons')
  have h: "result (handle (sample_env 0) ?rq None sample_state) =
      Inr (Json 200 (JObj [(''response'', JStr ''Hi there'')]))"
    by (simp add: chat_def chat_try_def get_context_def sample_env_def sample_create_def
          sample_state_def Let_def)
  have r4: "serve_all ?six (sample_state, Map.empty) ! 4 = handle (sample_env 0) ?rq None sample_state"
    using five_per_minute [OF closed times _ n4 b, of sample_state] st4 c4
    by (simp del: serve_all.simps handle.simps)
  have r5: "serve_all ?six (sample_state, Map.empty) ! 5 = rate_limited None sample_state"
    using five_per_minute [OF closed times _ n5 b, of sample_state] st5 c5
    by (simp del: serve_all.simps handle.simps)
  show ?thesis
    using closed h r4 r5 by (simp only: rate_limited_def)
qed

end
